theory Spec2Isabelle
  imports Complex_Main "HOL-Library.Sublist"
begin

section \<open>Data model\<close>

text \<open>
  The trade-idea ingestion and bracket-order engine exists in two variants:
  \<^verbatim>\<open>src/py/ib_bridge_stp2.py\<close> (stop-entry policy, order-id counter, price retry) and
  \<^verbatim>\<open>src/py - Copy/ib_bridge.py\<close> (entry-only policy, open-order limit). Definitions of
  the first keep the source's names; definitions of the second carry the suffix \<open>_copy\<close>.

  Prices and offsets are Python floats in the source; they are modelled by rationals,
  so every arithmetic statement below is about exact arithmetic. Feed records are
  modelled with the integer that \<^verbatim>\<open>int(trade["ID"])\<close> denotes as their \<open>ID\<close>
  (the copy sorts a batch by the raw field, which is the same order when the feed sends
  integers); text fields are ASCII strings.
\<close>

type_synonym price = rat

text \<open>A feed record (a JSON object): \<^verbatim>\<open>trade.get('BuySell', '')\<close> and
  \<^verbatim>\<open>trade.get('source', 'Unknown')\<close> read keys that may be absent.\<close>

record trade =
  ID :: int
  Symbol :: string
  BuySell :: "string option"
  source :: "string option"

text \<open>\<^verbatim>\<open>Future(symbol=..., lastTradeDateOrContractMonth=..., exchange=..., currency=...)\<close>\<close>

record contract =
  symbol :: string
  lastTradeDateOrContractMonth :: string
  exchange :: string
  currency :: string

definition Future :: "string \<Rightarrow> string \<Rightarrow> string \<Rightarrow> string \<Rightarrow> contract" where
  "Future s e x c =
     \<lparr>symbol = s, lastTradeDateOrContractMonth = e, exchange = x, currency = c\<rparr>"

text \<open>A market-data ticker as the program reads it: \<^verbatim>\<open>ticker.last\<close>, \<^verbatim>\<open>ticker.close\<close>.
  A field that holds no data yet fails both tests \<^verbatim>\<open>> 0\<close>, like a non-positive value.\<close>

record ticker =
  last_t :: price
  close :: price

text \<open>
  An order object. The order classes come from the broker library; the record holds the
  constructor arguments and the attributes that the program assigns afterwards. An
  attribute that the program never assigns is \<open>None\<close>. The first variant assigns
  \<^verbatim>\<open>orderId\<close>, \<^verbatim>\<open>parentId\<close>, \<^verbatim>\<open>transmit\<close>; the copy assigns \<^verbatim>\<open>OrderId\<close>,
  \<^verbatim>\<open>ParentId\<close>, \<^verbatim>\<open>Transmit\<close>.
\<close>

datatype order_class = StopLimit | Limit | Stop

record order =
  order_class :: order_class
  action :: string
  totalQuantity :: int
  lmtPrice :: "price option"
  stopPrice :: "price option"
  orderId :: "int option"
  parentId :: "int option"
  transmit :: "bool option"
  OrderId :: "int option"
  ParentId :: "int option"
  Transmit :: "bool option"

definition StopLimitOrder :: "string \<Rightarrow> int \<Rightarrow> price \<Rightarrow> price \<Rightarrow> order" where
  "StopLimitOrder a q sp lp =
     \<lparr>order_class = StopLimit, action = a, totalQuantity = q, lmtPrice = Some lp,
      stopPrice = Some sp, orderId = None, parentId = None, transmit = None,
      OrderId = None, ParentId = None, Transmit = None\<rparr>"

definition LimitOrder :: "string \<Rightarrow> int \<Rightarrow> price \<Rightarrow> order" where
  "LimitOrder a q lp =
     \<lparr>order_class = Limit, action = a, totalQuantity = q, lmtPrice = Some lp,
      stopPrice = None, orderId = None, parentId = None, transmit = None,
      OrderId = None, ParentId = None, Transmit = None\<rparr>"

definition StopOrder :: "string \<Rightarrow> int \<Rightarrow> price \<Rightarrow> order" where
  "StopOrder a q sp =
     \<lparr>order_class = Stop, action = a, totalQuantity = q, lmtPrice = None,
      stopPrice = Some sp, orderId = None, parentId = None, transmit = None,
      OrderId = None, ParentId = None, Transmit = None\<rparr>"

text \<open>An element of the open-order snapshot, as \<open>check_order_limit\<close> of the copy reads it:
  \<^verbatim>\<open>isinstance(order, Order)\<close>, \<^verbatim>\<open>order.contract\<close>, \<^verbatim>\<open>order.action\<close>.\<close>

datatype snapshot_item = IsOrder contract string | NotAnOrder

text \<open>The content of \<^verbatim>\<open>last_processed_id.txt\<close>, by what \<^verbatim>\<open>int(file.read().strip())\<close>
  makes of it.\<close>

datatype cursor_file = Missing | Unparsable | Holds int

text \<open>What the feed's HTTP endpoint answers to one request.\<close>

datatype response = Json "trade list" | RequestException

datatype exn = ValueError string | TypeError string | KeyError string

text \<open>The lines the program prints, one constructor for each \<^verbatim>\<open>print\<close> statement.\<close>

datatype msg =
    Last_processed_ID_read int
  | Invalid_last_processed_ID
  | No_last_processed_ID_file
  | Last_processed_ID_updated int
  | Error_fetching_trade_ideas
  | Retry_fetching nat nat string
  | Processing_Trade_ID_from int string
  | Invalid_action_Skipping string int
  | Mapped_action int string
  | Contract_qualification_failed int
  | Invalid_action_Skipping2 string int
  | Latest_Price price
  | Prices price price price price
  | Placing_order order
  | API_connection_failed
  | Polling_for_new_trade_ideas
  | Processing_new_Trade_ID int
  | Ignoring_Trade_ID int
  | No_new_trade_ideas_found
  | Processing_Trade_ID int
  | Contract_qualification_failed_for int
  | Adjusted_Prices price price price
  | Invalid_action_field string int
  | Open_Orders nat nat
  | Orders_placed_successfully
  | Order_limit_reached
  | Ignoring_Trade_ID_already_processed int

text \<open>
  Everything the program reads or mutates: the broker session (\<open>quotes\<close> is the sequence
  of ticker observations, one for each market-data request; \<open>qualifies\<close> is the answer
  of \<^verbatim>\<open>ib.qualifyContracts\<close>; \<open>reqIdSeq\<close> is the client's request-id sequence, from which
  \<^verbatim>\<open>ib.client.getReqId()\<close> hands out the next id; \<open>open_orders\<close> is the snapshot that
  \<^verbatim>\<open>ib.reqAllOpenOrders()\<close> returns; \<open>placed\<close> collects the \<^verbatim>\<open>ib.placeOrder\<close> calls),
  the seconds slept, the global \<^verbatim>\<open>ORDER_ID_COUNTER\<close>, the cursor file and the standard
  output.
\<close>

record world =
  quotes :: "nat \<Rightarrow> ticker"
  mkt_requests :: nat
  qualifies :: "contract \<Rightarrow> contract list"
  reqIdSeq :: int
  open_orders :: "snapshot_item list"
  placed :: "(contract \<times> order) list"
  slept :: nat
  ORDER_ID_COUNTER :: "int option"
  last_processed_file :: cursor_file
  stdout :: "msg list"

definition print_msg :: "msg \<Rightarrow> world \<Rightarrow> world" where
  "print_msg m w = w\<lparr>stdout := stdout w @ [m]\<rparr>"

definition sleep :: "nat \<Rightarrow> world \<Rightarrow> world" where
  "sleep n w = w\<lparr>slept := slept w + n\<rparr>"

definition reqMktData :: "contract \<Rightarrow> world \<Rightarrow> ticker \<times> world" where
  "reqMktData c w = (quotes w (mkt_requests w), w\<lparr>mkt_requests := Suc (mkt_requests w)\<rparr>)"

definition qualifyContracts :: "contract \<Rightarrow> world \<Rightarrow> contract list" where
  "qualifyContracts c w = qualifies w c"

definition getReqId :: "world \<Rightarrow> int \<times> world" where
  "getReqId w = (reqIdSeq w, w\<lparr>reqIdSeq := reqIdSeq w + 1\<rparr>)"

definition placeOrder :: "contract \<Rightarrow> order \<Rightarrow> world \<Rightarrow> world" where
  "placeOrder c ordr w = w\<lparr>placed := placed w @ [(c, ordr)]\<rparr>"

text \<open>The configuration file, with the values already converted as the program converts
  them (\<^verbatim>\<open>int(...)\<close>, \<^verbatim>\<open>float(...)\<close>): \<^verbatim>\<open>config["ORDER"]["quantity"]\<close> is \<open>ORDER_quantity\<close>.
  The last three keys are the ones only the copy reads.\<close>

record config =
  ORDER_quantity :: int
  ORDER_stop_offset :: price
  ORDER_limit_offset :: price
  ORDER_stop_loss_offset :: price
  ORDER_take_profit_offset :: price
  ORDER_source :: string
  CONTRACT_symbol :: string
  CONTRACT_expiry :: string
  CONTRACT_exchange :: string
  CONTRACT_currency :: string
  ORDER_entry_price_offset :: price
  ORDER_stop_loss_price :: price
  ORDER_limit_price :: price

section \<open>Python string operations\<close>

text \<open>\<^verbatim>\<open>str.strip()\<close> and \<^verbatim>\<open>str.upper()\<close> on ASCII text.\<close>

definition isspace :: "char \<Rightarrow> bool" where
  "isspace c = ((of_char c :: nat) \<in> {9, 10, 11, 12, 13, 28, 29, 30, 31, 32})"

definition strip :: "string \<Rightarrow> string" where
  "strip s = rev (dropWhile isspace (rev (dropWhile isspace s)))"

definition upper_char :: "char \<Rightarrow> char" where
  "upper_char c =
     (let n = (of_char c :: nat) in if 97 \<le> n \<and> n \<le> 122 then char_of (n - 32) else c)"

definition upper :: "string \<Rightarrow> string" where
  "upper s = map upper_char s"

section \<open>ib_bridge_stp2.py\<close>

definition MAX_ORDERS :: nat where
  "MAX_ORDERS = 15"

definition read_last_processed_id :: "world \<Rightarrow> int \<times> world" where
  "read_last_processed_id w =
     (case last_processed_file w of
        Holds last_id \<Rightarrow> (last_id, print_msg (Last_processed_ID_read last_id) w)
      | Unparsable \<Rightarrow> (0, print_msg Invalid_last_processed_ID w)
      | Missing \<Rightarrow> (0, print_msg No_last_processed_ID_file w))"

definition write_last_processed_id :: "int \<Rightarrow> world \<Rightarrow> world" where
  "write_last_processed_id last_id w =
     print_msg (Last_processed_ID_updated last_id) (w\<lparr>last_processed_file := Holds last_id\<rparr>)"

definition fetch_trade_ideas :: "response \<Rightarrow> world \<Rightarrow> trade list \<times> world" where
  "fetch_trade_ideas r w =
     (case r of
        Json ts \<Rightarrow> (ts, w)
      | RequestException \<Rightarrow> ([], print_msg Error_fetching_trade_ideas w))"

text \<open>The body of \<^verbatim>\<open>for attempt in range(retry_count)\<close> in \<open>fetch_latest_price\<close>, over
  the attempts still to make; the \<^verbatim>\<open>raise\<close> after the loop is the empty case.\<close>

fun fetch_latest_price_loop ::
  "nat list \<Rightarrow> nat \<Rightarrow> contract \<Rightarrow> world \<Rightarrow> (exn + price) \<times> world" where
  "fetch_latest_price_loop [] retry_count c w =
     (Inl (ValueError (''Unable to fetch the latest price for '' @ symbol c @ ''.'')), w)"
| "fetch_latest_price_loop (attempt # rest) retry_count c w =
     (case reqMktData c w of (tk, w1) \<Rightarrow>
        let w2 = sleep 2 w1 in
        if last_t tk > 0 then (Inr (last_t tk), w2)
        else if close tk > 0 then (Inr (close tk), w2)
        else fetch_latest_price_loop rest retry_count c
               (print_msg (Retry_fetching (attempt + 1) retry_count (symbol c)) w2))"

definition fetch_latest_price :: "contract \<Rightarrow> world \<Rightarrow> (exn + price) \<times> world" where
  "fetch_latest_price c w =
     (let retry_count = 3 in fetch_latest_price_loop [0..<retry_count] retry_count c w)"

definition initialize_order_id :: "world \<Rightarrow> world" where
  "initialize_order_id w =
     (if ORDER_ID_COUNTER w = None
      then (case getReqId w of (i, w1) \<Rightarrow> w1\<lparr>ORDER_ID_COUNTER := Some i\<rparr>)
      else w)"

text \<open>\<^verbatim>\<open>ORDER_ID_COUNTER += 1\<close> raises TypeError while the counter is still \<^verbatim>\<open>None\<close>.\<close>

definition get_next_order_id :: "world \<Rightarrow> (exn + int) \<times> world" where
  "get_next_order_id w =
     (case ORDER_ID_COUNTER w of
        None \<Rightarrow> (Inl (TypeError ''unsupported operand type(s) for +=''), w)
      | Some n \<Rightarrow> (Inr (n + 1), w\<lparr>ORDER_ID_COUNTER := Some (n + 1)\<rparr>))"

definition opposite :: "string \<Rightarrow> string" where
  "opposite a = (if a = ''BUY'' then ''SELL'' else ''BUY'')"

definition bracket_order ::
  "string \<Rightarrow> int \<Rightarrow> price \<Rightarrow> price \<Rightarrow> price \<Rightarrow> price \<Rightarrow> world \<Rightarrow> (exn + order list) \<times> world"
where
  "bracket_order a quantity stop_price limit_price stop_loss_price take_profit_price w =
     (case get_next_order_id w of
        (Inl e, w1) \<Rightarrow> (Inl e, w1)
      | (Inr parent_order_id, w1) \<Rightarrow>
          let parent = (StopLimitOrder a quantity stop_price limit_price)
                         \<lparr>orderId := Some parent_order_id, transmit := Some False\<rparr>
          in case get_next_order_id w1 of
               (Inl e, w2) \<Rightarrow> (Inl e, w2)
             | (Inr tp_id, w2) \<Rightarrow>
                 let take_profit = (LimitOrder (opposite a) quantity take_profit_price)
                                     \<lparr>orderId := Some tp_id, parentId := Some parent_order_id,
                                      transmit := Some False\<rparr>
                 in case get_next_order_id w2 of
                      (Inl e, w3) \<Rightarrow> (Inl e, w3)
                    | (Inr sl_id, w3) \<Rightarrow>
                        let stop_loss = (StopOrder (opposite a) quantity stop_loss_price)
                                          \<lparr>orderId := Some sl_id,
                                           parentId := Some parent_order_id,
                                           transmit := Some True\<rparr>
                        in (Inr [parent, take_profit, stop_loss], w3))"

definition action_map :: "string \<rightharpoonup> string" where
  "action_map = [''L'' \<mapsto> ''BUY'', ''S'' \<mapsto> ''SELL'']"

text \<open>The price computation of \<open>process_trade_idea\<close>, lines 149 to 161: the stop, limit,
  stop-loss and take-profit prices, or \<open>None\<close> in the final \<^verbatim>\<open>else\<close> branch.\<close>

definition order_prices ::
  "string \<Rightarrow> price \<Rightarrow> config \<Rightarrow> (price \<times> price \<times> price \<times> price) option" where
  "order_prices a latest_price cfg =
     (if a = ''BUY'' then
        let stop_price = latest_price + \<bar>ORDER_stop_offset cfg\<bar>;
            limit_price = latest_price + \<bar>ORDER_limit_offset cfg\<bar>;
            stop_loss_price = stop_price + ORDER_stop_loss_offset cfg;
            take_profit_price = stop_price + \<bar>ORDER_take_profit_offset cfg\<bar>
        in Some (stop_price, limit_price, stop_loss_price, take_profit_price)
      else if a = ''SELL'' then
        let stop_price = latest_price - \<bar>ORDER_stop_offset cfg\<bar>;
            limit_price = latest_price - \<bar>ORDER_limit_offset cfg\<bar>;
            stop_loss_price = stop_price + \<bar>ORDER_stop_loss_offset cfg\<bar>;
            take_profit_price = stop_price - \<bar>ORDER_take_profit_offset cfg\<bar>
        in Some (stop_price, limit_price, stop_loss_price, take_profit_price)
      else None)"

text \<open>\<^verbatim>\<open>for order in bracket_orders: print(...); ib.placeOrder(qualified_contract[0], order)\<close>\<close>

fun place_orders :: "contract \<Rightarrow> order list \<Rightarrow> world \<Rightarrow> world" where
  "place_orders c [] w = w"
| "place_orders c (ordr # rest) w =
     place_orders c rest (placeOrder c ordr (print_msg (Placing_order ordr) w))"

definition process_trade_idea :: "trade \<Rightarrow> config \<Rightarrow> world \<Rightarrow> exn option \<times> world" where
  "process_trade_idea trade cfg w0 =
     (let w1 = print_msg (Processing_Trade_ID_from (ID trade)
                            (case source trade of None \<Rightarrow> ''Unknown'' | Some s \<Rightarrow> s)) w0;
          a = upper (strip (case BuySell trade of None \<Rightarrow> [] | Some s \<Rightarrow> s))
      in case action_map a of
           None \<Rightarrow> (None, print_msg (Invalid_action_Skipping a (ID trade)) w1)
         | Some a' \<Rightarrow>
             let w2 = print_msg (Mapped_action (ID trade) a') w1;
                 quantity = ORDER_quantity cfg;
                 c = Future (CONTRACT_symbol cfg) (CONTRACT_expiry cfg)
                       (CONTRACT_exchange cfg) (CONTRACT_currency cfg)
             in case qualifyContracts c w2 of
                  [] \<Rightarrow> (None, print_msg (Contract_qualification_failed (ID trade)) w2)
                | qc # _ \<Rightarrow>
                    (case fetch_latest_price qc w2 of
                       (Inl e, w3) \<Rightarrow> (Some e, w3)
                     | (Inr latest_price, w3) \<Rightarrow>
                         (case order_prices a' latest_price cfg of
                            None \<Rightarrow>
                              (None, print_msg (Invalid_action_Skipping2 a' (ID trade)) w3)
                          | Some (stop_price, limit_price, stop_loss_price, take_profit_price) \<Rightarrow>
                              let w4 = print_msg (Latest_Price latest_price) w3;
                                  w5 = print_msg (Prices stop_price limit_price
                                         stop_loss_price take_profit_price) w4;
                                  w6 = initialize_order_id w5
                              in case bracket_order a' quantity stop_price limit_price
                                        stop_loss_price take_profit_price w6 of
                                   (Inl e, w7) \<Rightarrow> (Some e, w7)
                                 | (Inr bracket_orders, w7) \<Rightarrow>
                                     (None, sleep 2 (place_orders qc bracket_orders w7)))))"

text \<open>The \<^verbatim>\<open>for trade in trade_ideas\<close> loop of \<open>poll_cashbox_service\<close>, with the local
  variable \<open>last_processed_id\<close>; an exception of \<open>process_trade_idea\<close> leaves the loop.\<close>

fun for_trade_ideas :: "trade list \<Rightarrow> config \<Rightarrow> int \<Rightarrow> world \<Rightarrow> exn option \<times> world" where
  "for_trade_ideas [] cfg last_processed_id w = (None, w)"
| "for_trade_ideas (trade # rest) cfg last_processed_id w =
     (let trade_id = ID trade;
          trade' = trade\<lparr>source := Some (ORDER_source cfg)\<rparr>
      in if trade_id > last_processed_id then
           (case process_trade_idea trade' cfg
                   (print_msg (Processing_new_Trade_ID trade_id) w) of
              (Some e, w1) \<Rightarrow> (Some e, w1)
            | (None, w1) \<Rightarrow>
                for_trade_ideas rest cfg trade_id (write_last_processed_id trade_id w1))
         else for_trade_ideas rest cfg last_processed_id
                (print_msg (Ignoring_Trade_ID trade_id) w))"

text \<open>One pass through the body of \<^verbatim>\<open>while True\<close>: a polling cycle, for the response the
  feed gives to this cycle's request.\<close>

definition poll_cycle :: "response \<Rightarrow> config \<Rightarrow> world \<Rightarrow> exn option \<times> world" where
  "poll_cycle r cfg w =
     (case read_last_processed_id w of (last_processed_id, w1) \<Rightarrow>
        case fetch_trade_ideas r (print_msg Polling_for_new_trade_ideas w1) of
          (trade_ideas, w2) \<Rightarrow>
            if trade_ideas \<noteq> [] then
              (case for_trade_ideas (sort_key ID trade_ideas) cfg last_processed_id w2 of
                 (Some e, w3) \<Rightarrow> (Some e, w3)
               | (None, w3) \<Rightarrow> (None, sleep 30 w3))
            else (None, sleep 30 (print_msg No_new_trade_ideas_found w2)))"

text \<open>\<open>poll_cashbox_service\<close> after a successful connection, observed for as many cycles
  as there are feed responses: the loop itself never ends, and an exception ends it.\<close>

fun poll_cashbox_service :: "response list \<Rightarrow> config \<Rightarrow> world \<Rightarrow> exn option \<times> world" where
  "poll_cashbox_service [] cfg w = (None, w)"
| "poll_cashbox_service (r # rs) cfg w =
     (case poll_cycle r cfg w of
        (Some e, w1) \<Rightarrow> (Some e, w1)
      | (None, w1) \<Rightarrow> poll_cashbox_service rs cfg w1)"

section \<open>ib_bridge.py (the copy)\<close>

definition symbol_map :: "string \<rightharpoonup> string" where
  "symbol_map = [''SPX'' \<mapsto> ''MES'']"

definition read_last_processed_id_copy :: "world \<Rightarrow> int option" where
  "read_last_processed_id_copy w =
     (case last_processed_file w of Holds n \<Rightarrow> Some n | Unparsable \<Rightarrow> None | Missing \<Rightarrow> None)"

definition write_last_processed_id_copy :: "int \<Rightarrow> world \<Rightarrow> world" where
  "write_last_processed_id_copy last_id w = w\<lparr>last_processed_file := Holds last_id\<rparr>"

definition fetch_latest_price_copy :: "contract \<Rightarrow> world \<Rightarrow> (exn + price) \<times> world" where
  "fetch_latest_price_copy c w =
     (case reqMktData c w of (tk, w1) \<Rightarrow>
        let w2 = sleep 2 w1 in
        if last_t tk > 0 then (Inr (last_t tk), w2)
        else if close tk > 0 then (Inr (close tk), w2)
        else (Inl (ValueError ''Unable to fetch the latest price for the contract.''), w2))"

text \<open>The counting loop of \<open>check_order_limit\<close>, with the two counters.\<close>

fun count_open_orders :: "snapshot_item list \<Rightarrow> contract \<Rightarrow> nat \<Rightarrow> nat \<Rightarrow> nat \<times> nat" where
  "count_open_orders [] c buy_orders sell_orders = (buy_orders, sell_orders)"
| "count_open_orders (NotAnOrder # rest) c buy_orders sell_orders =
     count_open_orders rest c buy_orders sell_orders"
| "count_open_orders (IsOrder oc a # rest) c buy_orders sell_orders =
     (if symbol oc = symbol c
         \<and> lastTradeDateOrContractMonth oc = lastTradeDateOrContractMonth c
      then (if a = ''BUY'' then count_open_orders rest c (buy_orders + 1) sell_orders
            else if a = ''SELL'' then count_open_orders rest c buy_orders (sell_orders + 1)
            else count_open_orders rest c buy_orders sell_orders)
      else count_open_orders rest c buy_orders sell_orders)"

definition check_order_limit :: "contract \<Rightarrow> world \<Rightarrow> (nat \<times> nat) \<times> world" where
  "check_order_limit c w =
     (case count_open_orders (open_orders w) c 0 0 of
        (buy_orders, sell_orders) \<Rightarrow>
          ((buy_orders, sell_orders), print_msg (Open_Orders buy_orders sell_orders) w))"

definition place_orders_if_under_limit :: "contract \<Rightarrow> order list \<Rightarrow> world \<Rightarrow> world" where
  "place_orders_if_under_limit c orders w =
     (case check_order_limit c w of
        ((buy_orders, sell_orders), w1) \<Rightarrow>
          if buy_orders < 15 \<and> sell_orders < 15
          then print_msg Orders_placed_successfully (fold (placeOrder c) orders w1)
          else print_msg Order_limit_reached w1)"

definition bracket_order_copy ::
  "int \<Rightarrow> string \<Rightarrow> int \<Rightarrow> price \<Rightarrow> price \<Rightarrow> price \<Rightarrow> exn + order list" where
  "bracket_order_copy parent_order_id a quantity entry_price stop_loss_offset
       limit_price_offset =
     (if a \<notin> set [''BUY'', ''SELL'']
      then Inl (ValueError (''Invalid action: '' @ a @ ''. Must be 'BUY' or 'SELL'.''))
      else
        let parent = (LimitOrder a quantity entry_price)
                       \<lparr>OrderId := Some parent_order_id, Transmit := Some False\<rparr>;
            take_profit_action = opposite a;
            take_profit = (LimitOrder take_profit_action quantity
                             (entry_price + limit_price_offset))
                            \<lparr>OrderId := Some (parent_order_id + 1),
                             ParentId := Some parent_order_id, Transmit := Some False\<rparr>;
            stop_loss_action = opposite a;
            stop_loss = (StopOrder stop_loss_action quantity
                           (entry_price - stop_loss_offset))
                          \<lparr>OrderId := Some (parent_order_id + 2),
                           ParentId := Some parent_order_id, Transmit := Some True\<rparr>
        in Inr [parent, take_profit, stop_loss])"

definition process_trade_idea_copy :: "trade \<Rightarrow> config \<Rightarrow> world \<Rightarrow> exn option \<times> world" where
  "process_trade_idea_copy trade cfg w0 =
     (let w1 = print_msg (Processing_Trade_ID (ID trade)) w0 in
      case BuySell trade of
        None \<Rightarrow> (Some (KeyError ''BuySell''), w1)
      | Some a \<Rightarrow>
          let entry_price_offset = ORDER_entry_price_offset cfg;
              stop_loss_offset = ORDER_stop_loss_price cfg;
              limit_price_offset = ORDER_limit_price cfg;
              sym = (case symbol_map (Symbol trade) of Some m \<Rightarrow> m | None \<Rightarrow> Symbol trade);
              c = Future sym (CONTRACT_expiry cfg) (CONTRACT_exchange cfg)
                    (CONTRACT_currency cfg)
          in case qualifyContracts c w1 of
               [] \<Rightarrow> (None, print_msg (Contract_qualification_failed_for (ID trade)) w1)
             | qc # _ \<Rightarrow>
                 (case fetch_latest_price_copy qc w1 of
                    (Inl e, w2) \<Rightarrow> (Some e, w2)
                  | (Inr latest_price, w2) \<Rightarrow>
                      let adjusted_entry_price = latest_price + entry_price_offset;
                          stop_loss_price = adjusted_entry_price - stop_loss_offset;
                          target_price = adjusted_entry_price + limit_price_offset;
                          w3 = print_msg (Latest_Price latest_price) w2;
                          w4 = print_msg (Adjusted_Prices adjusted_entry_price
                                 stop_loss_price target_price) w3
                      in if a \<noteq> ''S'' \<and> a \<noteq> ''B''
                         then (None, print_msg (Invalid_action_field a (ID trade)) w4)
                         else
                           let a' = (if a = ''S'' then ''SELL'' else ''BUY'') in
                           case getReqId w4 of (req_id, w5) \<Rightarrow>
                             (case bracket_order_copy req_id a' 1 adjusted_entry_price
                                     stop_loss_offset limit_price_offset of
                                Inl e \<Rightarrow> (Some e, w5)
                              | Inr bracket_orders \<Rightarrow>
                                  (None, place_orders_if_under_limit qc bracket_orders w5))))"

text \<open>The \<^verbatim>\<open>for trade in trade_ideas\<close> loop of the copy. Its cursor is a local variable
  that lives across cycles (\<^verbatim>\<open>None\<close> until a first id is known), so the loop returns it.\<close>

fun for_trade_ideas_copy ::
  "trade list \<Rightarrow> config \<Rightarrow> int option \<Rightarrow> world \<Rightarrow> (exn + int option) \<times> world" where
  "for_trade_ideas_copy [] cfg last_processed_id w = (Inr last_processed_id, w)"
| "for_trade_ideas_copy (trade # rest) cfg last_processed_id w =
     (if (case last_processed_id of None \<Rightarrow> True | Some l \<Rightarrow> ID trade > l) then
        (case process_trade_idea_copy trade cfg w of
           (Some e, w1) \<Rightarrow> (Inl e, w1)
         | (None, w1) \<Rightarrow>
             for_trade_ideas_copy rest cfg (Some (ID trade))
               (write_last_processed_id_copy (ID trade) w1))
      else for_trade_ideas_copy rest cfg last_processed_id
             (print_msg (Ignoring_Trade_ID_already_processed (ID trade)) w))"

definition poll_cycle_copy ::
  "response \<Rightarrow> config \<Rightarrow> int option \<Rightarrow> world \<Rightarrow> (exn + int option) \<times> world" where
  "poll_cycle_copy r cfg last_processed_id w =
     (case fetch_trade_ideas r (print_msg Polling_for_new_trade_ideas w) of
        (trade_ideas, w1) \<Rightarrow>
          if trade_ideas \<noteq> [] then
            (case for_trade_ideas_copy (sort_key ID trade_ideas) cfg last_processed_id w1 of
               (Inl e, w2) \<Rightarrow> (Inl e, w2)
             | (Inr l, w2) \<Rightarrow> (Inr l, sleep 30 w2))
          else (Inr last_processed_id, sleep 30 (print_msg No_new_trade_ideas_found w1)))"

fun poll_loop_copy ::
  "response list \<Rightarrow> config \<Rightarrow> int option \<Rightarrow> world \<Rightarrow> (exn + int option) \<times> world" where
  "poll_loop_copy [] cfg last_processed_id w = (Inr last_processed_id, w)"
| "poll_loop_copy (r # rs) cfg last_processed_id w =
     (case poll_cycle_copy r cfg last_processed_id w of
        (Inl e, w1) \<Rightarrow> (Inl e, w1)
      | (Inr l, w1) \<Rightarrow> poll_loop_copy rs cfg l w1)"

definition poll_cashbox_service_copy ::
  "response list \<Rightarrow> config \<Rightarrow> world \<Rightarrow> (exn + int option) \<times> world" where
  "poll_cashbox_service_copy rs cfg w = poll_loop_copy rs cfg (read_last_processed_id_copy w) w"

section \<open>Observations and example inputs\<close>

text \<open>The ids for which a cycle announced \<^verbatim>\<open>Processing new Trade ID\<close>, in the order
  printed: the line is printed right before each call of \<open>process_trade_idea\<close>, so this
  is the dispatch order.\<close>

definition dispatched_ids :: "msg list \<Rightarrow> int list" where
  "dispatched_ids ms =
     List.map_filter (\<lambda>m. case m of Processing_new_Trade_ID i \<Rightarrow> Some i | _ \<Rightarrow> None) ms"

text \<open>The cursor that \<open>read_last_processed_id\<close> returns for a file content.\<close>

definition cursor_of :: "cursor_file \<Rightarrow> int" where
  "cursor_of f = (case f of Holds n \<Rightarrow> n | Unparsable \<Rightarrow> 0 | Missing \<Rightarrow> 0)"

text \<open>A configuration, a broker session that qualifies every contract and quotes a last
  price of 5000, and feed records, for the concrete instances below.\<close>

definition cfg_example :: config where
  "cfg_example =
     \<lparr>ORDER_quantity = 1, ORDER_stop_offset = 2, ORDER_limit_offset = 3,
      ORDER_stop_loss_offset = - 10, ORDER_take_profit_offset = 15,
      ORDER_source = ''cashbox'', CONTRACT_symbol = ''MES'', CONTRACT_expiry = ''202503'',
      CONTRACT_exchange = ''CME'', CONTRACT_currency = ''USD'',
      ORDER_entry_price_offset = 2, ORDER_stop_loss_price = 10, ORDER_limit_price = 15\<rparr>"

definition w_example :: world where
  "w_example =
     \<lparr>quotes = (\<lambda>k. \<lparr>last_t = 5000, close = 4990\<rparr>), mkt_requests = 0,
      qualifies = (\<lambda>c. [c]), reqIdSeq = 100, open_orders = [], placed = [], slept = 0,
      ORDER_ID_COUNTER = None, last_processed_file = Missing, stdout = []\<rparr>"

definition idea :: "int \<Rightarrow> string \<Rightarrow> trade" where
  "idea i code = \<lparr>ID = i, Symbol = ''SPX'', BuySell = Some code, source = None\<rparr>"

text \<open>The world in which a cycle enters its loop.\<close>

definition entering :: "world \<Rightarrow> world" where
  "entering w = print_msg Polling_for_new_trade_ideas (snd (read_last_processed_id w))"

text \<open>The counters of \<open>check_order_limit\<close> count the snapshot's orders on the contract
  (same symbol and expiry) by side.\<close>

definition on_contract :: "contract \<Rightarrow> string \<Rightarrow> snapshot_item \<Rightarrow> bool" where
  "on_contract c side it =
     (case it of
        IsOrder oc a \<Rightarrow> symbol oc = symbol c
          \<and> lastTradeDateOrContractMonth oc = lastTradeDateOrContractMonth c \<and> a = side
      | NotAnOrder \<Rightarrow> False)"

text \<open>A session in which the first three quote observations carry no price, and a
  session with fifteen open buy orders on the configured contract.\<close>

definition w_dry :: world where
  "w_dry = w_example\<lparr>quotes := (\<lambda>k. if k < 3 then \<lparr>last_t = 0, close = 0\<rparr>
                                  else \<lparr>last_t = 5000, close = 4990\<rparr>)\<rparr>"

definition w_full :: world where
  "w_full = w_example\<lparr>open_orders :=
               replicate 15 (IsOrder (Future ''MES'' ''202503'' ''CME'' ''USD'') ''BUY'')\<rparr>"

text \<open>The ids for which the copy's \<open>process_trade_idea\<close> was entered, in the order of
  its first printed line \<^verbatim>\<open>Processing Trade ID\<close>.\<close>

definition processed_ids_copy :: "msg list \<Rightarrow> int list" where
  "processed_ids_copy ms =
     List.map_filter (\<lambda>m. case m of Processing_Trade_ID i \<Rightarrow> Some i | _ \<Rightarrow> None) ms"

text \<open>
  The price oracle in the spec's words, over the quotes of the successive attempts: a quote
  is usable when its last-trade price or its last-close price is positive; the price of a
  usable quote is the last-trade price if positive, else the last-close price; the oracle
  answers with the price of the first usable quote among at most three, and fails when
  there is none.
\<close>

definition usable :: "ticker \<Rightarrow> bool" where
  "usable tk = (0 < last_t tk \<or> 0 < close tk)"

definition quote_price :: "ticker \<Rightarrow> price" where
  "quote_price tk = (if 0 < last_t tk then last_t tk else close tk)"




section \<open>Frame lemmas\<close>

lemma dispatched_ids_append [simp]:
  "dispatched_ids (xs @ ys) = dispatched_ids xs @ dispatched_ids ys"
  by (simp add: dispatched_ids_def map_filter_def)

lemma dispatched_ids_Nil [simp]: "dispatched_ids [] = []"
  by (simp add: dispatched_ids_def map_filter_def)

lemma dispatched_ids_single:
  "dispatched_ids (m # ms) =
     (case m of Processing_new_Trade_ID i \<Rightarrow> [i] | _ \<Rightarrow> []) @ dispatched_ids ms"
  by (simp add: dispatched_ids_def map_filter_def split: msg.splits)

lemma print_msg_fields [simp]:
  "last_processed_file (print_msg m w) = last_processed_file w"
  "placed (print_msg m w) = placed w"
  "ORDER_ID_COUNTER (print_msg m w) = ORDER_ID_COUNTER w"
  "reqIdSeq (print_msg m w) = reqIdSeq w"
  "mkt_requests (print_msg m w) = mkt_requests w"
  "slept (print_msg m w) = slept w"
  "quotes (print_msg m w) = quotes w"
  "qualifies (print_msg m w) = qualifies w"
  "open_orders (print_msg m w) = open_orders w"
  "stdout (print_msg m w) = stdout w @ [m]"
  by (simp_all add: print_msg_def)

lemma sleep_fields [simp]:
  "last_processed_file (sleep n w) = last_processed_file w"
  "placed (sleep n w) = placed w"
  "ORDER_ID_COUNTER (sleep n w) = ORDER_ID_COUNTER w"
  "reqIdSeq (sleep n w) = reqIdSeq w"
  "mkt_requests (sleep n w) = mkt_requests w"
  "slept (sleep n w) = slept w + n"
  "quotes (sleep n w) = quotes w"
  "qualifies (sleep n w) = qualifies w"
  "open_orders (sleep n w) = open_orders w"
  "stdout (sleep n w) = stdout w"
  by (simp_all add: sleep_def)

lemma placeOrder_fields [simp]:
  "last_processed_file (placeOrder c ordr w) = last_processed_file w"
  "placed (placeOrder c ordr w) = placed w @ [(c, ordr)]"
  "ORDER_ID_COUNTER (placeOrder c ordr w) = ORDER_ID_COUNTER w"
  "reqIdSeq (placeOrder c ordr w) = reqIdSeq w"
  "mkt_requests (placeOrder c ordr w) = mkt_requests w"
  "slept (placeOrder c ordr w) = slept w"
  "quotes (placeOrder c ordr w) = quotes w"
  "qualifies (placeOrder c ordr w) = qualifies w"
  "open_orders (placeOrder c ordr w) = open_orders w"
  "stdout (placeOrder c ordr w) = stdout w"
  by (simp_all add: placeOrder_def)

lemma write_last_processed_id_fields [simp]:
  "last_processed_file (write_last_processed_id i w) = Holds i"
  "placed (write_last_processed_id i w) = placed w"
  "ORDER_ID_COUNTER (write_last_processed_id i w) = ORDER_ID_COUNTER w"
  "reqIdSeq (write_last_processed_id i w) = reqIdSeq w"
  "mkt_requests (write_last_processed_id i w) = mkt_requests w"
  "slept (write_last_processed_id i w) = slept w"
  "quotes (write_last_processed_id i w) = quotes w"
  "qualifies (write_last_processed_id i w) = qualifies w"
  "open_orders (write_last_processed_id i w) = open_orders w"
  "stdout (write_last_processed_id i w) = stdout w @ [Last_processed_ID_updated i]"
  by (simp_all add: write_last_processed_id_def)

text \<open>What \<open>fetch_latest_price_loop\<close> leaves alone.\<close>

lemma fetch_latest_price_loop_frame:
  "fetch_latest_price_loop as rc c w = (r, w') \<Longrightarrow>
     last_processed_file w' = last_processed_file w \<and> placed w' = placed w
     \<and> ORDER_ID_COUNTER w' = ORDER_ID_COUNTER w \<and> reqIdSeq w' = reqIdSeq w
     \<and> quotes w' = quotes w \<and> qualifies w' = qualifies w \<and> open_orders w' = open_orders w
     \<and> dispatched_ids (stdout w') = dispatched_ids (stdout w)"
proof (induction as arbitrary: w)
  case Nil
  then show ?case by simp
next
  case (Cons a as)
  then show ?case
    by (auto simp: reqMktData_def Let_def dispatched_ids_single split: if_splits)
qed

lemma fetch_latest_price_frame:
  "fetch_latest_price c w = (r, w') \<Longrightarrow>
     last_processed_file w' = last_processed_file w \<and> placed w' = placed w
     \<and> ORDER_ID_COUNTER w' = ORDER_ID_COUNTER w \<and> reqIdSeq w' = reqIdSeq w
     \<and> quotes w' = quotes w \<and> qualifies w' = qualifies w \<and> open_orders w' = open_orders w
     \<and> dispatched_ids (stdout w') = dispatched_ids (stdout w)"
  unfolding fetch_latest_price_def Let_def by (rule fetch_latest_price_loop_frame)

lemma place_orders_fields [simp]:
  "last_processed_file (place_orders c os w) = last_processed_file w"
  "placed (place_orders c os w) = placed w @ map (Pair c) os"
  "ORDER_ID_COUNTER (place_orders c os w) = ORDER_ID_COUNTER w"
  "reqIdSeq (place_orders c os w) = reqIdSeq w"
  "dispatched_ids (stdout (place_orders c os w)) = dispatched_ids (stdout w)"
  by (induction os arbitrary: w; simp add: dispatched_ids_single)+

lemma initialize_order_id_fields [simp]:
  "last_processed_file (initialize_order_id w) = last_processed_file w"
  "placed (initialize_order_id w) = placed w"
  "stdout (initialize_order_id w) = stdout w"
  "ORDER_ID_COUNTER (initialize_order_id w)
     = Some (case ORDER_ID_COUNTER w of None \<Rightarrow> reqIdSeq w | Some n \<Rightarrow> n)"
  by (auto simp: initialize_order_id_def getReqId_def)

lemma get_next_order_id_Some:
  "ORDER_ID_COUNTER w = Some n \<Longrightarrow>
   get_next_order_id w = (Inr (n + 1), w\<lparr>ORDER_ID_COUNTER := Some (n + 1)\<rparr>)"
  by (simp add: get_next_order_id_def)

text \<open>The bracket that \<open>bracket_order\<close> builds once the counter is initialised.\<close>

lemma bracket_order_Some:
  assumes "ORDER_ID_COUNTER w = Some n"
  shows "bracket_order a q sp lp slp tpp w =
    (Inr [(StopLimitOrder a q sp lp)\<lparr>orderId := Some (n + 1), transmit := Some False\<rparr>,
          (LimitOrder (opposite a) q tpp)\<lparr>orderId := Some (n + 2), parentId := Some (n + 1),
             transmit := Some False\<rparr>,
          (StopOrder (opposite a) q slp)\<lparr>orderId := Some (n + 3), parentId := Some (n + 1),
             transmit := Some True\<rparr>],
     w\<lparr>ORDER_ID_COUNTER := Some (n + 3)\<rparr>)"
  using assms by (simp add: bracket_order_def get_next_order_id_Some)

lemma process_trade_idea_frame:
  "process_trade_idea t cfg w = (r, w') \<Longrightarrow>
     last_processed_file w' = last_processed_file w
     \<and> dispatched_ids (stdout w') = dispatched_ids (stdout w)"
  unfolding process_trade_idea_def Let_def
  by (auto simp: dispatched_ids_single qualifyContracts_def bracket_order_Some
      split: option.splits list.splits prod.splits sum.splits
      dest!: fetch_latest_price_frame)

section \<open>The loop over a batch\<close>

lemma read_last_processed_id_fst [simp]:
  "fst (read_last_processed_id w) = cursor_of (last_processed_file w)"
  by (simp add: read_last_processed_id_def cursor_of_def split: cursor_file.splits)

lemma read_last_processed_id_fields [simp]:
  "last_processed_file (snd (read_last_processed_id w)) = last_processed_file w"
  "placed (snd (read_last_processed_id w)) = placed w"
  "ORDER_ID_COUNTER (snd (read_last_processed_id w)) = ORDER_ID_COUNTER w"
  "reqIdSeq (snd (read_last_processed_id w)) = reqIdSeq w"
  "mkt_requests (snd (read_last_processed_id w)) = mkt_requests w"
  "dispatched_ids (stdout (snd (read_last_processed_id w))) = dispatched_ids (stdout w)"
  by (simp_all add: read_last_processed_id_def dispatched_ids_single split: cursor_file.splits)

lemma Max_insert_below:
  fixes a b :: int
  assumes "finite S" and "a \<le> b"
  shows "Max (insert a (insert b S)) = Max (insert b S)"
proof -
  have "Max (insert a (insert b S)) = max a (Max (insert b S))"
    using assms(1) by (intro Max_insert) auto
  moreover have "b \<le> Max (insert b S)"
    using assms(1) by (intro Max_ge) auto
  ultimately show ?thesis
    using assms(2) by (simp add: max_def)
qed

lemma for_trade_ideas_ignored:
  "\<forall>t\<in>set ts. ID t \<le> c \<Longrightarrow>
   for_trade_ideas ts cfg c w
     = (None, w\<lparr>stdout := stdout w @ map (\<lambda>t. Ignoring_Trade_ID (ID t)) ts\<rparr>)"
  by (induction ts arbitrary: w) (simp_all add: print_msg_def)

text \<open>One step of the loop on an idea above the cursor.\<close>

lemma for_trade_ideas_step:
  assumes "c < ID t"
    and "process_trade_idea (t\<lparr>source := Some (ORDER_source cfg)\<rparr>) cfg
           (print_msg (Processing_new_Trade_ID (ID t)) w) = (r, w1)"
  shows "for_trade_ideas (t # ts) cfg c w =
           (case r of Some e \<Rightarrow> (Some e, w1)
            | None \<Rightarrow> for_trade_ideas ts cfg (ID t) (write_last_processed_id (ID t) w1))"
  using assms by (simp add: Let_def split: option.splits)

lemma for_trade_ideas_skip:
  assumes "\<not> c < ID t"
  shows "for_trade_ideas (t # ts) cfg c w =
           for_trade_ideas ts cfg c (print_msg (Ignoring_Trade_ID (ID t)) w)"
  using assms by (simp add: Let_def)

lemma for_trade_ideas_cursor:
  "cursor_of (last_processed_file w) = c \<Longrightarrow> for_trade_ideas ts cfg c w = (None, w') \<Longrightarrow>
   cursor_of (last_processed_file w') = Max (insert c (ID ` set ts))"
proof (induction ts arbitrary: c w)
  case Nil
  then show ?case by simp
next
  case (Cons t ts)
  show ?case
  proof (cases "c < ID t")
    case True
    obtain r w1 where p: "process_trade_idea (t\<lparr>source := Some (ORDER_source cfg)\<rparr>) cfg
        (print_msg (Processing_new_Trade_ID (ID t)) w) = (r, w1)"
      by fastforce
    from Cons.prems(2) have r: "r = None"
      and rest: "for_trade_ideas ts cfg (ID t) (write_last_processed_id (ID t) w1) = (None, w')"
      unfolding for_trade_ideas_step[OF True p] by (auto split: option.splits)
    have "cursor_of (last_processed_file w') = Max (insert (ID t) (ID ` set ts))"
      by (rule Cons.IH[OF _ rest]) (simp add: cursor_of_def)
    moreover have "Max (insert c (insert (ID t) (ID ` set ts))) = Max (insert (ID t) (ID ` set ts))"
      using True by (intro Max_insert_below) auto
    ultimately show ?thesis by simp
  next
    case False
    from Cons.prems(2)
    have rest: "for_trade_ideas ts cfg c (print_msg (Ignoring_Trade_ID (ID t)) w) = (None, w')"
      unfolding for_trade_ideas_skip[OF False] .
    have "cursor_of (last_processed_file w') = Max (insert c (ID ` set ts))"
      by (rule Cons.IH[OF _ rest]) (simp add: Cons.prems(1))
    moreover have "Max (insert (ID t) (insert c (ID ` set ts))) = Max (insert c (ID ` set ts))"
      using False by (intro Max_insert_below) auto
    ultimately show ?thesis by (simp add: insert_commute)
  qed
qed

lemma for_trade_ideas_mono:
  "cursor_of (last_processed_file w) = c \<Longrightarrow>
   c \<le> cursor_of (last_processed_file (snd (for_trade_ideas ts cfg c w)))"
proof (induction ts arbitrary: c w)
  case Nil
  then show ?case by simp
next
  case (Cons t ts)
  show ?case
  proof (cases "c < ID t")
    case True
    obtain r w1 where p: "process_trade_idea (t\<lparr>source := Some (ORDER_source cfg)\<rparr>) cfg
        (print_msg (Processing_new_Trade_ID (ID t)) w) = (r, w1)"
      by fastforce
    from process_trade_idea_frame[OF p]
    have f: "last_processed_file w1 = last_processed_file w" by simp
    show ?thesis
    proof (cases r)
      case None
      have "ID t \<le> cursor_of (last_processed_file
              (snd (for_trade_ideas ts cfg (ID t) (write_last_processed_id (ID t) w1))))"
        by (rule Cons.IH) (simp add: cursor_of_def)
      then show ?thesis
        unfolding for_trade_ideas_step[OF True p] using None True by simp
    next
      case (Some e)
      then show ?thesis
        unfolding for_trade_ideas_step[OF True p] using f Cons.prems by simp
    qed
  next
    case False
    have "c \<le> cursor_of (last_processed_file
            (snd (for_trade_ideas ts cfg c (print_msg (Ignoring_Trade_ID (ID t)) w))))"
      by (rule Cons.IH) (simp add: Cons.prems)
    then show ?thesis
      unfolding for_trade_ideas_skip[OF False] .
  qed
qed


section \<open>A polling cycle\<close>

lemma fetch_trade_ideas_Json [simp]: "fetch_trade_ideas (Json ts) w = (ts, w)"
  by (simp add: fetch_trade_ideas_def)

lemma fetch_trade_ideas_RequestException [simp]:
  "fetch_trade_ideas RequestException w = ([], print_msg Error_fetching_trade_ideas w)"
  by (simp add: fetch_trade_ideas_def)

lemma entering_fields [simp]:
  "last_processed_file (entering w) = last_processed_file w"
  "placed (entering w) = placed w"
  "ORDER_ID_COUNTER (entering w) = ORDER_ID_COUNTER w"
  "reqIdSeq (entering w) = reqIdSeq w"
  "mkt_requests (entering w) = mkt_requests w"
  "dispatched_ids (stdout (entering w)) = dispatched_ids (stdout w)"
  by (simp_all add: entering_def dispatched_ids_single)

lemma poll_cycle_Json:
  "poll_cycle (Json batch) cfg w =
     (if batch \<noteq> [] then
        (case for_trade_ideas (sort_key ID batch) cfg (fst (read_last_processed_id w))
                (entering w) of
           (Some e, w3) \<Rightarrow> (Some e, w3)
         | (None, w3) \<Rightarrow> (None, sleep 30 w3))
      else (None, sleep 30 (print_msg No_new_trade_ideas_found (entering w))))"
  by (cases "read_last_processed_id w")
     (simp add: poll_cycle_def entering_def del: read_last_processed_id_fst)

lemma poll_cycle_RequestException:
  "poll_cycle RequestException cfg w =
     (None, sleep 30 (print_msg No_new_trade_ideas_found
        (print_msg Error_fetching_trade_ideas (entering w))))"
  by (simp add: poll_cycle_def entering_def split: prod.splits)

text \<open>The result of a cycle in terms of the result of its loop.\<close>

lemma poll_cycle_loop:
  assumes "batch \<noteq> []"
  shows "fst (poll_cycle (Json batch) cfg w)
           = fst (for_trade_ideas (sort_key ID batch) cfg (fst (read_last_processed_id w))
                (entering w))"
    and "last_processed_file (snd (poll_cycle (Json batch) cfg w))
           = last_processed_file (snd (for_trade_ideas (sort_key ID batch) cfg
                (fst (read_last_processed_id w)) (entering w)))"
    and "dispatched_ids (stdout (snd (poll_cycle (Json batch) cfg w)))
           = dispatched_ids (stdout (snd (for_trade_ideas (sort_key ID batch) cfg
                (fst (read_last_processed_id w)) (entering w))))"
  using assms unfolding poll_cycle_Json
  by (auto split: prod.splits option.splits)

lemma poll_cycle_cursor_mono:
  "fst (read_last_processed_id w) \<le> fst (read_last_processed_id (snd (poll_cycle r cfg w)))"
proof (cases r)
  case RequestException
  then show ?thesis by (simp add: poll_cycle_RequestException)
next
  case (Json batch)
  show ?thesis
  proof (cases "batch = []")
    case True
    then show ?thesis using Json by (simp add: poll_cycle_Json)
  next
    case False
    have "cursor_of (last_processed_file w) \<le> cursor_of (last_processed_file
        (snd (for_trade_ideas (sort_key ID batch) cfg (cursor_of (last_processed_file w))
           (entering w))))"
      by (rule for_trade_ideas_mono) simp
    then show ?thesis using Json poll_cycle_loop(2)[OF False] by simp
  qed
qed

lemma poll_cycle_cursor_max:
  assumes "fst (poll_cycle (Json batch) cfg w) = None"
  shows "fst (read_last_processed_id (snd (poll_cycle (Json batch) cfg w)))
           = Max (insert (fst (read_last_processed_id w)) (ID ` set batch))"
proof (cases "batch = []")
  case True
  then show ?thesis by (simp add: poll_cycle_Json)
next
  case False
  let ?c = "cursor_of (last_processed_file w)"
  obtain r w' where l: "for_trade_ideas (sort_key ID batch) cfg ?c (entering w) = (r, w')"
    by fastforce
  with assms poll_cycle_loop(1)[OF False, of cfg w] have r: "r = None" by simp
  have "cursor_of (last_processed_file w') = Max (insert ?c (ID ` set (sort_key ID batch)))"
    by (rule for_trade_ideas_cursor[OF _ l[unfolded r]]) simp
  then show ?thesis using poll_cycle_loop(2)[OF False, of cfg w] l by simp
qed


section \<open>Bracket construction\<close>



text \<open>The copy computes the three ids from the id it is given and assigns them, the
  parent link and the flags to the attributes \<^verbatim>\<open>OrderId\<close>, \<^verbatim>\<open>ParentId\<close>, \<^verbatim>\<open>Transmit\<close>.\<close>

lemma bracket_order_copy_attributes:
  assumes "a = ''BUY'' \<or> a = ''SELL''"
  shows "\<exists>parent take_profit stop_loss.
     bracket_order_copy p a q entry_price stop_loss_offset limit_price_offset
       = Inr [parent, take_profit, stop_loss]
     \<and> OrderId parent = Some p \<and> OrderId take_profit = Some (p + 1)
     \<and> OrderId stop_loss = Some (p + 2)
     \<and> ParentId take_profit = Some p \<and> ParentId stop_loss = Some p
     \<and> Transmit parent = Some False \<and> Transmit take_profit = Some False
     \<and> Transmit stop_loss = Some True
     \<and> orderId parent = None \<and> parentId take_profit = None \<and> transmit stop_loss = None"
  using assms
  by (auto simp: bracket_order_copy_def Let_def LimitOrder_def StopOrder_def)

section \<open>The cursor\<close>

text \<open>
  C4. Idempotence of re-polling: when every idea of the fetched batch has an id less than
  or equal to the cursor that the cycle reads, the cycle ends without an exception, places
  no order, leaves the cursor file and the cursor unchanged, requests no quote, takes no
  id from the broker or from the order-id counter, and dispatches no idea.
\<close>

theorem repoll_is_idempotent:
  assumes "\<forall>t\<in>set batch. ID t \<le> fst (read_last_processed_id w)"
  shows "fst (poll_cycle (Json batch) cfg w) = None
     \<and> placed (snd (poll_cycle (Json batch) cfg w)) = placed w
     \<and> last_processed_file (snd (poll_cycle (Json batch) cfg w)) = last_processed_file w
     \<and> fst (read_last_processed_id (snd (poll_cycle (Json batch) cfg w)))
         = fst (read_last_processed_id w)
     \<and> ORDER_ID_COUNTER (snd (poll_cycle (Json batch) cfg w)) = ORDER_ID_COUNTER w
     \<and> reqIdSeq (snd (poll_cycle (Json batch) cfg w)) = reqIdSeq w
     \<and> mkt_requests (snd (poll_cycle (Json batch) cfg w)) = mkt_requests w
     \<and> dispatched_ids (stdout (snd (poll_cycle (Json batch) cfg w))) = dispatched_ids (stdout w)"
proof -
  have a: "\<forall>t\<in>set (sort_key ID batch). ID t \<le> fst (read_last_processed_id w)"
    using assms by simp
  have d: "dispatched_ids (map (\<lambda>t. Ignoring_Trade_ID (ID t)) ts) = []" for ts
    by (induction ts) (simp_all add: dispatched_ids_single)
  show ?thesis
    unfolding poll_cycle_Json for_trade_ideas_ignored[OF a]
    by (simp add: d dispatched_ids_single)
qed

theorem repoll_is_idempotent_witness:
  "ID (idea 3 ''L'') \<le> fst (read_last_processed_id (w_example\<lparr>last_processed_file := Holds 7\<rparr>))
   \<and> ID (idea 7 ''S'') \<le> fst (read_last_processed_id (w_example\<lparr>last_processed_file := Holds 7\<rparr>))
   \<and> fst (poll_cycle (Json [idea 7 ''S'', idea 3 ''L'']) cfg_example
            (w_example\<lparr>last_processed_file := Holds 7\<rparr>)) = None
   \<and> placed (snd (poll_cycle (Json [idea 7 ''S'', idea 3 ''L'']) cfg_example
            (w_example\<lparr>last_processed_file := Holds 7\<rparr>))) = []
   \<and> last_processed_file (snd (poll_cycle (Json [idea 7 ''S'', idea 3 ''L'']) cfg_example
            (w_example\<lparr>last_processed_file := Holds 7\<rparr>))) = Holds 7"
proof -
  have h: "\<forall>t\<in>set [idea 7 ''S'', idea 3 ''L''].
             ID t \<le> fst (read_last_processed_id (w_example\<lparr>last_processed_file := Holds 7\<rparr>))"
    by (simp add: idea_def cursor_of_def)
  from repoll_is_idempotent[OF h, of cfg_example] show ?thesis
    by (simp add: idea_def cursor_of_def w_example_def)
qed

text \<open>
  C3, as the code has it. The cursor that the next cycle reads is never below the
  cursor that this cycle read, whatever the feed answered and also when the cycle ends in
  an exception. When the cycle runs to its end, the cursor is the maximum of the cursor
  before and of all ids of the batch: every idea above the cursor whose processing
  returned is marked processed, whether or not a bracket was submitted for it.
\<close>

theorem cursor_after_cycle:
  "fst (read_last_processed_id w) \<le> fst (read_last_processed_id (snd (poll_cycle r cfg w)))
   \<and> (fst (poll_cycle (Json batch) cfg w) = None \<longrightarrow>
        fst (read_last_processed_id (snd (poll_cycle (Json batch) cfg w)))
          = Max (insert (fst (read_last_processed_id w)) (ID ` set batch)))"
  using poll_cycle_cursor_mono poll_cycle_cursor_max by blast

theorem cursor_after_cycle_witness:
  "fst (poll_cycle (Json [idea 5 ''X'', idea 3 ''L'']) cfg_example w_example) = None
   \<and> fst (read_last_processed_id w_example)
       \<le> fst (read_last_processed_id
            (snd (poll_cycle (Json [idea 5 ''X'', idea 3 ''L'']) cfg_example w_example)))
   \<and> fst (read_last_processed_id
            (snd (poll_cycle (Json [idea 5 ''X'', idea 3 ''L'']) cfg_example w_example)))
       = Max (insert (fst (read_last_processed_id w_example))
            (ID ` set [idea 5 ''X'', idea 3 ''L'']))"
proof -
  have h: "fst (poll_cycle (Json [idea 5 ''X'', idea 3 ''L'']) cfg_example w_example) = None"
    by code_simp
  from cursor_after_cycle[of w_example "Json [idea 5 ''X'', idea 3 ''L'']" cfg_example
      "[idea 5 ''X'', idea 3 ''L'']"] h
  show ?thesis by blast
qed

text \<open>
  The claim as stated fails: with the cursor at 0 and the batch of idea 3 (action code
  \<open>L\<close>) and idea 5 (action code \<open>X\<close>), the cycle submits the three legs of idea 3 only,
  reports idea 5 as invalid, and leaves the cursor at 5, which is not the largest id
  whose bracket was submitted.
\<close>

theorem cursor_passes_skipped_idea:
  "fst (read_last_processed_id w_example) = 0
   \<and> fst (poll_cycle (Json [idea 5 ''X'', idea 3 ''L'']) cfg_example w_example) = None
   \<and> map (\<lambda>(c, ordr). orderId ordr)
        (placed (snd (poll_cycle (Json [idea 5 ''X'', idea 3 ''L'']) cfg_example w_example)))
       = [Some 101, Some 102, Some 103]
   \<and> filter (\<lambda>m. m = Invalid_action_Skipping ''X'' 5 \<or> m = Mapped_action 3 ''BUY'')
        (stdout (snd (poll_cycle (Json [idea 5 ''X'', idea 3 ''L'']) cfg_example w_example)))
       = [Mapped_action 3 ''BUY'', Invalid_action_Skipping ''X'' 5]
   \<and> fst (read_last_processed_id
        (snd (poll_cycle (Json [idea 5 ''X'', idea 3 ''L'']) cfg_example w_example))) = 5"
  by code_simp

section \<open>Dispatch order\<close>



section \<open>Ideas that are skipped\<close>

text \<open>The two paths of \<open>process_trade_idea\<close> that return early: the world they leave
  differs from the one they found by the printed lines only.\<close>

lemma process_trade_idea_invalid_action:
  assumes "action_map (upper (strip (case BuySell t of None \<Rightarrow> [] | Some s \<Rightarrow> s))) = None"
  shows "process_trade_idea t cfg w =
     (None, print_msg (Invalid_action_Skipping
                         (upper (strip (case BuySell t of None \<Rightarrow> [] | Some s \<Rightarrow> s))) (ID t))
              (print_msg (Processing_Trade_ID_from (ID t)
                 (case source t of None \<Rightarrow> ''Unknown'' | Some s \<Rightarrow> s)) w))"
  using assms by (simp add: process_trade_idea_def Let_def)

lemma process_trade_idea_unqualified:
  assumes "action_map (upper (strip (case BuySell t of None \<Rightarrow> [] | Some s \<Rightarrow> s))) = Some a"
    and "qualifies w (Future (CONTRACT_symbol cfg) (CONTRACT_expiry cfg)
           (CONTRACT_exchange cfg) (CONTRACT_currency cfg)) = []"
  shows "process_trade_idea t cfg w =
     (None, print_msg (Contract_qualification_failed (ID t))
              (print_msg (Mapped_action (ID t) a)
                (print_msg (Processing_Trade_ID_from (ID t)
                   (case source t of None \<Rightarrow> ''Unknown'' | Some s \<Rightarrow> s)) w)))"
  using assms by (simp add: process_trade_idea_def Let_def qualifyContracts_def)


subsection \<open>The copy\<close>

lemma write_last_processed_id_copy_fields [simp]:
  "last_processed_file (write_last_processed_id_copy i w) = Holds i"
  "placed (write_last_processed_id_copy i w) = placed w"
  "reqIdSeq (write_last_processed_id_copy i w) = reqIdSeq w"
  "stdout (write_last_processed_id_copy i w) = stdout w"
  by (simp_all add: write_last_processed_id_copy_def)

lemma fold_placeOrder_fields [simp]:
  "last_processed_file (fold (placeOrder c) os w) = last_processed_file w"
  "placed (fold (placeOrder c) os w) = placed w @ map (Pair c) os"
  "reqIdSeq (fold (placeOrder c) os w) = reqIdSeq w"
  "stdout (fold (placeOrder c) os w) = stdout w"
  by (induction os arbitrary: w; simp)+

lemma count_open_orders_eq:
  "count_open_orders its c b s =
     (b + length (filter (on_contract c ''BUY'') its),
      s + length (filter (on_contract c ''SELL'') its))"
proof (induction its c b s rule: count_open_orders.induct)
  case (1 c b s)
  show ?case by simp
next
  case (2 rest c b s)
  then show ?case by (simp add: on_contract_def)
next
  case (3 oc a rest c b s)
  then show ?case by (auto simp: on_contract_def)
qed

lemma place_orders_if_under_limit_eq:
  "place_orders_if_under_limit c orders w =
     (let buy_orders = length (filter (on_contract c ''BUY'') (open_orders w));
          sell_orders = length (filter (on_contract c ''SELL'') (open_orders w));
          w1 = print_msg (Open_Orders buy_orders sell_orders) w
      in if buy_orders < 15 \<and> sell_orders < 15
         then print_msg Orders_placed_successfully (fold (placeOrder c) orders w1)
         else print_msg Order_limit_reached w1)"
  by (simp add: place_orders_if_under_limit_def check_order_limit_def count_open_orders_eq
      Let_def)

lemma place_orders_if_under_limit_fields [simp]:
  "last_processed_file (place_orders_if_under_limit c os w) = last_processed_file w"
  "reqIdSeq (place_orders_if_under_limit c os w) = reqIdSeq w"
  by (simp_all add: place_orders_if_under_limit_eq Let_def)


lemma for_trade_ideas_copy_step:
  assumes "case c of None \<Rightarrow> True | Some l \<Rightarrow> l < ID t"
    and "process_trade_idea_copy t cfg w = (r, w1)"
  shows "for_trade_ideas_copy (t # ts) cfg c w =
           (case r of Some e \<Rightarrow> (Inl e, w1)
            | None \<Rightarrow> for_trade_ideas_copy ts cfg (Some (ID t))
                        (write_last_processed_id_copy (ID t) w1))"
  using assms by (simp split: option.splits)



text \<open>What \<open>process_trade_idea\<close> of the copy does once the action code is \<open>S\<close> or \<open>B\<close>,
  the contract qualifies and the quote carries a price: it takes a request id, builds the
  bracket and places it only under the limit.\<close>

lemma process_trade_idea_copy_priced:
  assumes "BuySell t = Some a" and "a = ''S'' \<or> a = ''B''"
    and "qualifies w (Future (case symbol_map (Symbol t) of Some m \<Rightarrow> m | None \<Rightarrow> Symbol t)
           (CONTRACT_expiry cfg) (CONTRACT_exchange cfg) (CONTRACT_currency cfg)) = qc # qcs"
    and "0 < last_t (quotes w (mkt_requests w)) \<or> 0 < close (quotes w (mkt_requests w))"
  shows "fst (process_trade_idea_copy t cfg w) = None"
    and "reqIdSeq (snd (process_trade_idea_copy t cfg w)) = reqIdSeq w + 1"
    and "length (filter (on_contract qc ''BUY'') (open_orders w)) < 15
         \<and> length (filter (on_contract qc ''SELL'') (open_orders w)) < 15 \<Longrightarrow>
         \<exists>parent take_profit stop_loss.
           placed (snd (process_trade_idea_copy t cfg w))
             = placed w @ [(qc, parent), (qc, take_profit), (qc, stop_loss)]"
    and "\<not> (length (filter (on_contract qc ''BUY'') (open_orders w)) < 15
         \<and> length (filter (on_contract qc ''SELL'') (open_orders w)) < 15) \<Longrightarrow>
         placed (snd (process_trade_idea_copy t cfg w)) = placed w
         \<and> last (stdout (snd (process_trade_idea_copy t cfg w))) = Order_limit_reached"
  using assms
  by (auto simp: process_trade_idea_copy_def Let_def qualifyContracts_def
      fetch_latest_price_copy_def reqMktData_def getReqId_def bracket_order_copy_def
      place_orders_if_under_limit_eq)

lemma process_trade_idea_copy_unqualified:
  assumes "BuySell t = Some a"
    and "qualifies w (Future (case symbol_map (Symbol t) of Some m \<Rightarrow> m | None \<Rightarrow> Symbol t)
           (CONTRACT_expiry cfg) (CONTRACT_exchange cfg) (CONTRACT_currency cfg)) = []"
  shows "process_trade_idea_copy t cfg w =
           (None, print_msg (Contract_qualification_failed_for (ID t))
                    (print_msg (Processing_Trade_ID (ID t)) w))"
  using assms by (simp add: process_trade_idea_copy_def Let_def qualifyContracts_def)

lemma process_trade_idea_copy_invalid_action:
  assumes "BuySell t = Some a" and "a \<noteq> ''S''" and "a \<noteq> ''B''"
    and "qualifies w (Future (case symbol_map (Symbol t) of Some m \<Rightarrow> m | None \<Rightarrow> Symbol t)
           (CONTRACT_expiry cfg) (CONTRACT_exchange cfg) (CONTRACT_currency cfg)) = qc # qcs"
    and "0 < last_t (quotes w (mkt_requests w)) \<or> 0 < close (quotes w (mkt_requests w))"
  shows "fst (process_trade_idea_copy t cfg w) = None"
    and "placed (snd (process_trade_idea_copy t cfg w)) = placed w"
    and "reqIdSeq (snd (process_trade_idea_copy t cfg w)) = reqIdSeq w"
    and "last (stdout (snd (process_trade_idea_copy t cfg w))) = Invalid_action_field a (ID t)"
  using assms
  by (auto simp: process_trade_idea_copy_def Let_def qualifyContracts_def
      fetch_latest_price_copy_def reqMktData_def)

lemma processed_ids_copy_append [simp]:
  "processed_ids_copy (xs @ ys) = processed_ids_copy xs @ processed_ids_copy ys"
  by (simp add: processed_ids_copy_def map_filter_def)

lemma processed_ids_copy_Nil [simp]: "processed_ids_copy [] = []"
  by (simp add: processed_ids_copy_def map_filter_def)







section \<open>Skipped ideas and the cursor\<close>



section \<open>Failures of one idea\<close>

text \<open>
  C1, as the code has it. A failure that \<open>process_trade_idea\<close> reports by returning is
  logged and the loop continues with the next idea of the same batch, from a world that
  differs by the printed lines and the cursor file only: in the first variant an action
  code outside the action map and a contract that does not qualify; in the copy a
  contract that does not qualify, an action code other than \<open>S\<close> and \<open>B\<close>, and the
  open-order limit.
\<close>

theorem returned_failure_continues_batch:
  "(c < ID t
      \<and> action_map (upper (strip (case BuySell t of None \<Rightarrow> [] | Some s \<Rightarrow> s))) = None
     \<longrightarrow> for_trade_ideas (t # rest) cfg c w
           = for_trade_ideas rest cfg (ID t)
               (write_last_processed_id (ID t)
                 (print_msg (Invalid_action_Skipping
                      (upper (strip (case BuySell t of None \<Rightarrow> [] | Some s \<Rightarrow> s))) (ID t))
                   (print_msg (Processing_Trade_ID_from (ID t) (ORDER_source cfg))
                     (print_msg (Processing_new_Trade_ID (ID t)) w)))))
   \<and> (c < ID t
      \<and> action_map (upper (strip (case BuySell t of None \<Rightarrow> [] | Some s \<Rightarrow> s))) = Some a
      \<and> qualifies w (Future (CONTRACT_symbol cfg) (CONTRACT_expiry cfg)
           (CONTRACT_exchange cfg) (CONTRACT_currency cfg)) = []
     \<longrightarrow> for_trade_ideas (t # rest) cfg c w
           = for_trade_ideas rest cfg (ID t)
               (write_last_processed_id (ID t)
                 (print_msg (Contract_qualification_failed (ID t))
                   (print_msg (Mapped_action (ID t) a)
                     (print_msg (Processing_Trade_ID_from (ID t) (ORDER_source cfg))
                       (print_msg (Processing_new_Trade_ID (ID t)) w))))))
   \<and> ((case cc of None \<Rightarrow> True | Some l \<Rightarrow> l < ID t)
      \<and> BuySell t = Some b
      \<and> qualifies w (Future (case symbol_map (Symbol t) of Some m \<Rightarrow> m | None \<Rightarrow> Symbol t)
           (CONTRACT_expiry cfg) (CONTRACT_exchange cfg) (CONTRACT_currency cfg)) = []
     \<longrightarrow> for_trade_ideas_copy (t # rest) cfg cc w
           = for_trade_ideas_copy rest cfg (Some (ID t))
               (write_last_processed_id_copy (ID t)
                 (print_msg (Contract_qualification_failed_for (ID t))
                   (print_msg (Processing_Trade_ID (ID t)) w))))
   \<and> ((case cc of None \<Rightarrow> True | Some l \<Rightarrow> l < ID t)
      \<and> BuySell t = Some b \<and> b \<noteq> ''S'' \<and> b \<noteq> ''B''
      \<and> qualifies w (Future (case symbol_map (Symbol t) of Some m \<Rightarrow> m | None \<Rightarrow> Symbol t)
           (CONTRACT_expiry cfg) (CONTRACT_exchange cfg) (CONTRACT_currency cfg)) = qc # qcs
      \<and> (0 < last_t (quotes w (mkt_requests w)) \<or> 0 < close (quotes w (mkt_requests w)))
     \<longrightarrow> (\<exists>w1. for_trade_ideas_copy (t # rest) cfg cc w
                  = for_trade_ideas_copy rest cfg (Some (ID t))
                      (write_last_processed_id_copy (ID t) w1)
               \<and> placed w1 = placed w
               \<and> last (stdout w1) = Invalid_action_field b (ID t)))
   \<and> ((case cc of None \<Rightarrow> True | Some l \<Rightarrow> l < ID t)
      \<and> BuySell t = Some b \<and> (b = ''S'' \<or> b = ''B'')
      \<and> qualifies w (Future (case symbol_map (Symbol t) of Some m \<Rightarrow> m | None \<Rightarrow> Symbol t)
           (CONTRACT_expiry cfg) (CONTRACT_exchange cfg) (CONTRACT_currency cfg)) = qc # qcs
      \<and> (0 < last_t (quotes w (mkt_requests w)) \<or> 0 < close (quotes w (mkt_requests w)))
      \<and> (15 \<le> length (filter (on_contract qc ''BUY'') (open_orders w))
           \<or> 15 \<le> length (filter (on_contract qc ''SELL'') (open_orders w)))
     \<longrightarrow> (\<exists>w1. for_trade_ideas_copy (t # rest) cfg cc w
                  = for_trade_ideas_copy rest cfg (Some (ID t))
                      (write_last_processed_id_copy (ID t) w1)
               \<and> placed w1 = placed w
               \<and> last (stdout w1) = Order_limit_reached))"
proof (intro conjI impI)
  let ?t = "t\<lparr>source := Some (ORDER_source cfg)\<rparr>"
  let ?w = "print_msg (Processing_new_Trade_ID (ID t)) w"
  assume a: "c < ID t
      \<and> action_map (upper (strip (case BuySell t of None \<Rightarrow> [] | Some s \<Rightarrow> s))) = None"
  then have lt: "c < ID t"
    and i: "action_map (upper (strip (case BuySell ?t of None \<Rightarrow> [] | Some s \<Rightarrow> s))) = None"
    by simp_all
  show "for_trade_ideas (t # rest) cfg c w
           = for_trade_ideas rest cfg (ID t)
               (write_last_processed_id (ID t)
                 (print_msg (Invalid_action_Skipping
                      (upper (strip (case BuySell t of None \<Rightarrow> [] | Some s \<Rightarrow> s))) (ID t))
                   (print_msg (Processing_Trade_ID_from (ID t) (ORDER_source cfg)) ?w)))"
    using for_trade_ideas_step[OF lt process_trade_idea_invalid_action[OF i, of cfg ?w], of rest]
    by simp
next
  let ?t = "t\<lparr>source := Some (ORDER_source cfg)\<rparr>"
  let ?w = "print_msg (Processing_new_Trade_ID (ID t)) w"
  assume a: "c < ID t
      \<and> action_map (upper (strip (case BuySell t of None \<Rightarrow> [] | Some s \<Rightarrow> s))) = Some a
      \<and> qualifies w (Future (CONTRACT_symbol cfg) (CONTRACT_expiry cfg)
           (CONTRACT_exchange cfg) (CONTRACT_currency cfg)) = []"
  then have lt: "c < ID t"
    and i: "action_map (upper (strip (case BuySell ?t of None \<Rightarrow> [] | Some s \<Rightarrow> s))) = Some a"
    and q: "qualifies ?w (Future (CONTRACT_symbol cfg) (CONTRACT_expiry cfg)
           (CONTRACT_exchange cfg) (CONTRACT_currency cfg)) = []"
    by simp_all
  show "for_trade_ideas (t # rest) cfg c w
           = for_trade_ideas rest cfg (ID t)
               (write_last_processed_id (ID t)
                 (print_msg (Contract_qualification_failed (ID t))
                   (print_msg (Mapped_action (ID t) a)
                     (print_msg (Processing_Trade_ID_from (ID t) (ORDER_source cfg)) ?w))))"
    using for_trade_ideas_step[OF lt process_trade_idea_unqualified[OF i q], of rest]
    by simp
next
  assume a: "(case cc of None \<Rightarrow> True | Some l \<Rightarrow> l < ID t)
      \<and> BuySell t = Some b
      \<and> qualifies w (Future (case symbol_map (Symbol t) of Some m \<Rightarrow> m | None \<Rightarrow> Symbol t)
           (CONTRACT_expiry cfg) (CONTRACT_exchange cfg) (CONTRACT_currency cfg)) = []"
  then have g: "case cc of None \<Rightarrow> True | Some l \<Rightarrow> l < ID t" and 1: "BuySell t = Some b"
    and 3: "qualifies w (Future (case symbol_map (Symbol t) of Some m \<Rightarrow> m | None \<Rightarrow> Symbol t)
           (CONTRACT_expiry cfg) (CONTRACT_exchange cfg) (CONTRACT_currency cfg)) = []"
    by blast+
  show "for_trade_ideas_copy (t # rest) cfg cc w
           = for_trade_ideas_copy rest cfg (Some (ID t))
               (write_last_processed_id_copy (ID t)
                 (print_msg (Contract_qualification_failed_for (ID t))
                   (print_msg (Processing_Trade_ID (ID t)) w)))"
    using for_trade_ideas_copy_step[OF g process_trade_idea_copy_unqualified[OF 1 3], of rest]
    by simp
next
  let ?p = "process_trade_idea_copy t cfg w"
  assume a: "(case cc of None \<Rightarrow> True | Some l \<Rightarrow> l < ID t)
      \<and> BuySell t = Some b \<and> b \<noteq> ''S'' \<and> b \<noteq> ''B''
      \<and> qualifies w (Future (case symbol_map (Symbol t) of Some m \<Rightarrow> m | None \<Rightarrow> Symbol t)
           (CONTRACT_expiry cfg) (CONTRACT_exchange cfg) (CONTRACT_currency cfg)) = qc # qcs
      \<and> (0 < last_t (quotes w (mkt_requests w)) \<or> 0 < close (quotes w (mkt_requests w)))"
  then have g: "case cc of None \<Rightarrow> True | Some l \<Rightarrow> l < ID t" and 1: "BuySell t = Some b"
    and 2: "b \<noteq> ''S''" "b \<noteq> ''B''"
    and 3: "qualifies w (Future (case symbol_map (Symbol t) of Some m \<Rightarrow> m | None \<Rightarrow> Symbol t)
           (CONTRACT_expiry cfg) (CONTRACT_exchange cfg) (CONTRACT_currency cfg)) = qc # qcs"
    and 4: "0 < last_t (quotes w (mkt_requests w)) \<or> 0 < close (quotes w (mkt_requests w))"
    by blast+
  note r = process_trade_idea_copy_invalid_action[OF 1 2 3 4]
  have p: "?p = (None, snd ?p)" using r(1) by (metis prod.collapse)
  have "for_trade_ideas_copy (t # rest) cfg cc w
          = for_trade_ideas_copy rest cfg (Some (ID t))
              (write_last_processed_id_copy (ID t) (snd ?p))"
    using for_trade_ideas_copy_step[OF g p, of rest] by simp
  with r(2,4) show "\<exists>w1. for_trade_ideas_copy (t # rest) cfg cc w
                  = for_trade_ideas_copy rest cfg (Some (ID t))
                      (write_last_processed_id_copy (ID t) w1)
               \<and> placed w1 = placed w
               \<and> last (stdout w1) = Invalid_action_field b (ID t)"
    by blast
next
  let ?p = "process_trade_idea_copy t cfg w"
  assume a: "(case cc of None \<Rightarrow> True | Some l \<Rightarrow> l < ID t)
      \<and> BuySell t = Some b \<and> (b = ''S'' \<or> b = ''B'')
      \<and> qualifies w (Future (case symbol_map (Symbol t) of Some m \<Rightarrow> m | None \<Rightarrow> Symbol t)
           (CONTRACT_expiry cfg) (CONTRACT_exchange cfg) (CONTRACT_currency cfg)) = qc # qcs
      \<and> (0 < last_t (quotes w (mkt_requests w)) \<or> 0 < close (quotes w (mkt_requests w)))
      \<and> (15 \<le> length (filter (on_contract qc ''BUY'') (open_orders w))
           \<or> 15 \<le> length (filter (on_contract qc ''SELL'') (open_orders w)))"
  then have g: "case cc of None \<Rightarrow> True | Some l \<Rightarrow> l < ID t" and 1: "BuySell t = Some b"
    and 2: "b = ''S'' \<or> b = ''B''"
    and 3: "qualifies w (Future (case symbol_map (Symbol t) of Some m \<Rightarrow> m | None \<Rightarrow> Symbol t)
           (CONTRACT_expiry cfg) (CONTRACT_exchange cfg) (CONTRACT_currency cfg)) = qc # qcs"
    and 4: "0 < last_t (quotes w (mkt_requests w)) \<or> 0 < close (quotes w (mkt_requests w))"
    and 5: "\<not> (length (filter (on_contract qc ''BUY'') (open_orders w)) < 15
         \<and> length (filter (on_contract qc ''SELL'') (open_orders w)) < 15)"
    by auto
  note r = process_trade_idea_copy_priced(1)[OF 1 2 3 4]
    process_trade_idea_copy_priced(4)[OF 1 2 3 4 5]
  have p: "?p = (None, snd ?p)" using r(1) by (metis prod.collapse)
  have "for_trade_ideas_copy (t # rest) cfg cc w
          = for_trade_ideas_copy rest cfg (Some (ID t))
              (write_last_processed_id_copy (ID t) (snd ?p))"
    using for_trade_ideas_copy_step[OF g p, of rest] by simp
  with r(2) show "\<exists>w1. for_trade_ideas_copy (t # rest) cfg cc w
                  = for_trade_ideas_copy rest cfg (Some (ID t))
                      (write_last_processed_id_copy (ID t) w1)
               \<and> placed w1 = placed w
               \<and> last (stdout w1) = Order_limit_reached"
    by blast
qed

theorem returned_failure_continues_batch_witness:
  "0 < ID (idea 1 ''Buy'')
   \<and> action_map (upper (strip (case BuySell (idea 1 ''Buy'') of None \<Rightarrow> [] | Some s \<Rightarrow> s)))
       = None
   \<and> for_trade_ideas (idea 1 ''Buy'' # [idea 2 ''L'']) cfg_example 0 w_example
       = for_trade_ideas [idea 2 ''L''] cfg_example (ID (idea 1 ''Buy''))
           (write_last_processed_id (ID (idea 1 ''Buy''))
             (print_msg (Invalid_action_Skipping
                  (upper (strip (case BuySell (idea 1 ''Buy'') of None \<Rightarrow> [] | Some s \<Rightarrow> s)))
                  (ID (idea 1 ''Buy'')))
               (print_msg (Processing_Trade_ID_from (ID (idea 1 ''Buy'')) (ORDER_source cfg_example))
                 (print_msg (Processing_new_Trade_ID (ID (idea 1 ''Buy''))) w_example))))
   \<and> dispatched_ids (stdout (snd (for_trade_ideas (idea 1 ''Buy'' # [idea 2 ''L''])
        cfg_example 0 w_example))) = [1, 2]
   \<and> map (\<lambda>(c, ordr). orderId ordr)
       (placed (snd (for_trade_ideas (idea 1 ''Buy'' # [idea 2 ''L'']) cfg_example 0 w_example)))
       = [Some 101, Some 102, Some 103]"
proof -
  have h1: "0 < ID (idea 1 ''Buy'')" by code_simp
  have h2: "action_map (upper (strip (case BuySell (idea 1 ''Buy'') of None \<Rightarrow> []
              | Some s \<Rightarrow> s))) = None"
    by code_simp
  have h3: "dispatched_ids (stdout (snd (for_trade_ideas (idea 1 ''Buy'' # [idea 2 ''L''])
        cfg_example 0 w_example))) = [1, 2]"
    by code_simp
  have h4: "map (\<lambda>(c, ordr). orderId ordr)
       (placed (snd (for_trade_ideas (idea 1 ''Buy'' # [idea 2 ''L'']) cfg_example 0 w_example)))
       = [Some 101, Some 102, Some 103]"
    by code_simp
  from returned_failure_continues_batch[where c = 0 and t = "idea 1 ''Buy''"
      and cfg = cfg_example and w = w_example and rest = "[idea 2 ''L'']"] h1 h2
  have "for_trade_ideas (idea 1 ''Buy'' # [idea 2 ''L'']) cfg_example 0 w_example
       = for_trade_ideas [idea 2 ''L''] cfg_example (ID (idea 1 ''Buy''))
           (write_last_processed_id (ID (idea 1 ''Buy''))
             (print_msg (Invalid_action_Skipping
                  (upper (strip (case BuySell (idea 1 ''Buy'') of None \<Rightarrow> [] | Some s \<Rightarrow> s)))
                  (ID (idea 1 ''Buy'')))
               (print_msg (Processing_Trade_ID_from (ID (idea 1 ''Buy'')) (ORDER_source cfg_example))
                 (print_msg (Processing_new_Trade_ID (ID (idea 1 ''Buy''))) w_example))))"
    by blast
  with h1 h2 h3 h4 show ?thesis by blast
qed

text \<open>
  The claim as stated fails for the price: when the first three quote observations carry
  no price, \<open>fetch_latest_price\<close> raises for idea 1, the exception leaves the cycle, idea 2
  of the same batch is never dispatched although processing it at that point would have
  succeeded, and \<open>poll_cashbox_service\<close> ends with the exception after one cycle.
\<close>

theorem price_failure_aborts_polling:
  "fst (poll_cycle (Json [idea 2 ''L'', idea 1 ''L'']) cfg_example w_dry)
     = Some (ValueError ''Unable to fetch the latest price for MES.'')
   \<and> dispatched_ids (stdout (snd (poll_cycle (Json [idea 2 ''L'', idea 1 ''L''])
        cfg_example w_dry))) = [1]
   \<and> placed (snd (poll_cycle (Json [idea 2 ''L'', idea 1 ''L'']) cfg_example w_dry)) = []
   \<and> fst (process_trade_idea (idea 2 ''L'') cfg_example
        (snd (poll_cycle (Json [idea 2 ''L'', idea 1 ''L'']) cfg_example w_dry))) = None
   \<and> fst (poll_cashbox_service [Json [idea 2 ''L'', idea 1 ''L''], Json [idea 3 ''S'']]
        cfg_example w_dry)
     = Some (ValueError ''Unable to fetch the latest price for MES.'')
   \<and> filter (\<lambda>m. m = Polling_for_new_trade_ideas)
        (stdout (snd (poll_cashbox_service [Json [idea 2 ''L'', idea 1 ''L''], Json [idea 3 ''S'']]
        cfg_example w_dry))) = [Polling_for_new_trade_ideas]"
  by code_simp

section \<open>The open-order limit\<close>




text \<open>The first variant defines \<^verbatim>\<open>MAX_ORDERS\<close> but consults no open orders: with the same
  fifteen open buy orders it submits the bracket and advances its order-id counter.\<close>

lemma first_variant_ignores_open_orders:
  "MAX_ORDERS = 15
   \<and> fst (check_order_limit (Future ''MES'' ''202503'' ''CME'' ''USD'') w_full) = (15, 0)
   \<and> fst (process_trade_idea (idea 1 ''L'') cfg_example w_full) = None
   \<and> map (\<lambda>(c, ordr). orderId ordr)
        (placed (snd (process_trade_idea (idea 1 ''L'') cfg_example w_full)))
       = [Some 101, Some 102, Some 103]
   \<and> ORDER_ID_COUNTER (snd (process_trade_idea (idea 1 ''L'') cfg_example w_full)) = Some 103"
  by code_simp

section \<open>The price oracle\<close>






text \<open>The copy asks once: a first quote without a price makes it fail, whatever the
  later quotes are.\<close>

lemma fetch_latest_price_copy_single_attempt:
  "fst (fetch_latest_price_copy c w)
     = (if usable (quotes w (mkt_requests w)) then Inr (quote_price (quotes w (mkt_requests w)))
        else Inl (ValueError ''Unable to fetch the latest price for the contract.''))
   \<and> mkt_requests (snd (fetch_latest_price_copy c w)) = mkt_requests w + 1"
  by (simp add: fetch_latest_price_copy_def reqMktData_def Let_def usable_def quote_price_def)

section \<open>Pricing\<close>






text \<open>The copy prices a Short as it prices a Long: with the offsets 2, 10 and 15 and the
  reference price 5000 the entry is a sell at 5002, the stop-loss a buy at 4992.\<close>

lemma copy_short_prices:
  "map (\<lambda>(c, ordr). (order_class ordr, action ordr, stopPrice ordr, lmtPrice ordr))
     (placed (snd (process_trade_idea_copy (idea 1 ''S'') cfg_example w_example)))
     = [(Limit, ''SELL'', None, Some 5002),
        (Limit, ''BUY'', None, Some 5017),
        (Stop, ''BUY'', Some 4992, None)]"
  by code_simp

section \<open>Action codes\<close>

















end
